theory Spec2Isabelle
  imports Complex_Main
begin

section \<open>Python values\<close>

text \<open>
  The client is dynamically typed: what \<^verbatim>\<open>response.json()\<close> returns, what a dataclass
  field holds and what goes into a request payload are Python values. Only the values that
  the JSON decoder produces occur: \<^verbatim>\<open>None\<close>, booleans, unbounded integers, floats,
  strings, lists and dictionaries with string keys. A dictionary is an association list in
  insertion order; a lookup is \<open>map_of\<close>. Python strings are HOL strings.
\<close>

datatype pyfloat = Finite real | PosInf | NegInf | NaN

datatype json =
    JNull
  | JBool bool
  | JInt int
  | JFloat pyfloat
  | JStr string
  | JArr "json list"
  | JObj "(string \<times> json) list"

text \<open>Truth value of a Python value, as \<^verbatim>\<open>not x\<close> tests it.\<close>

fun truthy :: "json \<Rightarrow> bool" where
  "truthy JNull = False"
| "truthy (JBool b) = b"
| "truthy (JInt i) = (i \<noteq> 0)"
| "truthy (JFloat f) = (f \<noteq> Finite 0)"
| "truthy (JStr s) = (s \<noteq> [])"
| "truthy (JArr xs) = (xs \<noteq> [])"
| "truthy (JObj kvs) = (kvs \<noteq> [])"

section \<open>Exceptions\<close>

text \<open>
  The exception classes of the \<^verbatim>\<open>requests\<close> library that matter here are all
  subclasses of \<^verbatim>\<open>RequestException\<close>: connection errors (refused connections, DNS
  failures), TLS errors, timeouts and, since the library defines
  \<^verbatim>\<open>requests.exceptions.JSONDecodeError\<close>, the failure of \<^verbatim>\<open>response.json()\<close>.
  Each carries the text that \<^verbatim>\<open>str(e)\<close> yields.
\<close>

datatype request_exception =
    ConnectionError string
  | SSLError string
  | Timeout string
  | JSONDecodeError string
  | OtherRequestException string

fun exception_str :: "request_exception \<Rightarrow> string" where
  "exception_str (ConnectionError s) = s"
| "exception_str (SSLError s) = s"
| "exception_str (Timeout s) = s"
| "exception_str (JSONDecodeError s) = s"
| "exception_str (OtherRequestException s) = s"

text \<open>
  \<open>RapidWireAPIError\<close> is the client's own exception class with its two attributes
  \<^verbatim>\<open>status_code\<close> and \<^verbatim>\<open>detail\<close>; the detail is whatever value the code passes.
  The remaining constructors are the built-in exceptions that the code can raise.
\<close>

datatype exn =
    RapidWireAPIError int json
  | RequestException request_exception
  | ValueError
  | TypeError
  | AttributeError
  | KeyError
  | IndexError
  | OtherException string

section \<open>The HTTP exchange\<close>

text \<open>
  A response as the client reads it: \<^verbatim>\<open>response.status_code\<close>,
  \<^verbatim>\<open>response.text\<close> and the outcome of \<^verbatim>\<open>response.json()\<close>, which is either the
  decoded value or a \<^verbatim>\<open>JSONDecodeError\<close> with its message.
\<close>

record response =
  status_code :: int
  text' :: string
  json_result :: "string + json"

text \<open>
  \<^verbatim>\<open>response.ok\<close> of the \<^verbatim>\<open>requests\<close> library: false exactly for the client and
  server error statuses, 400 to 599.
\<close>

definition response_ok :: "response \<Rightarrow> bool" where
  "response_ok r = (\<not> (400 \<le> status_code r \<and> status_code r < 600))"

text \<open>The keyword arguments that the endpoint operations pass on to the session.\<close>

datatype kwargs = NoKwargs | Json json | Params "(string \<times> json) list"

record http_request =
  method' :: string
  url :: string
  headers :: "(string \<times> string) list"
  kwargs :: kwargs

datatype outcome = Raises exn | Returns response

text \<open>
  Messages printed by the version check. The fixed text of each message is its
  constructor; the values interpolated into the text are its arguments.
\<close>

datatype warning =
    VersionUnknown
  | MajorMismatch string json
  | ConnectFailed exn

text \<open>
  The world outside the client: how the network answers a request, the requests handed
  to the session so far, and what has been printed.
\<close>

record world =
  respond :: "http_request \<Rightarrow> outcome"
  sent :: "http_request list"
  stdout :: "warning list"

record client =
  base_url :: string
  session_headers :: "(string \<times> string) list"

section \<open>Built-in operations of Python that the client uses\<close>

text \<open>
  \<^verbatim>\<open>str.upper()\<close> on the characters of a HOL string, which are bytes: the letters
  a to z go to A to Z and every other ASCII character stays, as in Python. A character
  outside ASCII, which Python maps by the Unicode tables of the interpreter, is left as
  it is here: symbols are taken to be ASCII.
\<close>

definition char_upper :: "char \<Rightarrow> char" where
  "char_upper c =
     (let n = (of_char c :: nat)
      in if 97 \<le> n \<and> n \<le> 122 then char_of (n - 32) else c)"

definition upper :: "string \<Rightarrow> string" where
  "upper s = map char_upper s"

text \<open>\<^verbatim>\<open>s.rstrip(c)\<close> for a single character: every trailing \<open>c\<close> is removed.\<close>

definition rstrip :: "char \<Rightarrow> string \<Rightarrow> string" where
  "rstrip c s = rev (dropWhile (\<lambda>x. x = c) (rev s))"

text \<open>
  \<^verbatim>\<open>s.split(sep)\<close> for a single separator character: the pieces between the
  occurrences of \<open>sep\<close>, at least one piece, empty pieces kept.
\<close>

fun split :: "char \<Rightarrow> string \<Rightarrow> string list" where
  "split sep [] = [[]]"
| "split sep (c # cs) =
     (if c = sep then [] # split sep cs
      else (case split sep cs of
              [] \<Rightarrow> [[c]]
            | p # ps \<Rightarrow> (c # p) # ps))"

text \<open>\<^verbatim>\<open>xs[0]\<close>: the first element, \<^verbatim>\<open>IndexError\<close> on an empty list.\<close>

definition index0 :: "'a list \<Rightarrow> exn + 'a" where
  "index0 xs = (case xs of [] \<Rightarrow> Inl IndexError | x # _ \<Rightarrow> Inr x)"

text \<open>
  \<^verbatim>\<open>obj.get(key, default)\<close>: only a dictionary has the attribute \<^verbatim>\<open>get\<close>; on
  \<^verbatim>\<open>None\<close>, a number, a string or a list the attribute lookup raises.
\<close>

definition py_get :: "json \<Rightarrow> string \<Rightarrow> json \<Rightarrow> exn + json" where
  "py_get obj k dflt =
     (case obj of
        JObj kvs \<Rightarrow> Inr (case map_of kvs k of Some v \<Rightarrow> v | None \<Rightarrow> dflt)
      | _ \<Rightarrow> Inl AttributeError)"

text \<open>
  \<^verbatim>\<open>obj[key]\<close> with a string key: a dictionary gives the value or \<^verbatim>\<open>KeyError\<close>;
  every other value raises \<^verbatim>\<open>TypeError\<close> (not subscriptable, or indices must be
  integers).
\<close>

definition getitem :: "json \<Rightarrow> string \<Rightarrow> exn + json" where
  "getitem obj k =
     (case obj of
        JObj kvs \<Rightarrow> (case map_of kvs k of Some v \<Rightarrow> Inr v | None \<Rightarrow> Inl KeyError)
      | _ \<Rightarrow> Inl TypeError)"

text \<open>
  What a \<^verbatim>\<open>for\<close> over a value yields: the elements of a list, the characters of a
  string (as strings of length one), the keys of a dictionary; anything else is not
  iterable.
\<close>

definition py_iter :: "json \<Rightarrow> exn + json list" where
  "py_iter v =
     (case v of
        JArr xs \<Rightarrow> Inr xs
      | JStr s \<Rightarrow> Inr (map (\<lambda>ch. JStr [ch]) s)
      | JObj kvs \<Rightarrow> Inr (map (\<lambda>kv. JStr (fst kv)) kvs)
      | _ \<Rightarrow> Inl TypeError)"

text \<open>Sequencing of computations that may raise.\<close>

definition bind_exn :: "exn + 'a \<Rightarrow> ('a \<Rightarrow> exn + 'b) \<Rightarrow> exn + 'b" where
  "bind_exn m f = (case m of Inl e \<Rightarrow> Inl e | Inr x \<Rightarrow> f x)"

text \<open>A list comprehension whose element expression may raise: the first failure ends it.\<close>

fun map_exn :: "('a \<Rightarrow> exn + 'b) \<Rightarrow> 'a list \<Rightarrow> exn + 'b list" where
  "map_exn f [] = Inr []"
| "map_exn f (x # xs) =
     (case f x of
        Inl e \<Rightarrow> Inl e
      | Inr y \<Rightarrow> (case map_exn f xs of Inl e \<Rightarrow> Inl e | Inr ys \<Rightarrow> Inr (y # ys)))"

section \<open>Dataclasses\<close>

text \<open>
  A call \<^verbatim>\<open>C(**data)\<close> of a dataclass: \<^verbatim>\<open>data\<close> must be a mapping; a key that is
  not a parameter of the generated \<^verbatim>\<open>__init__\<close> raises \<^verbatim>\<open>TypeError\<close>, as does a
  parameter without default that no key supplies. The values are stored as they come:
  the annotations of a dataclass are not checked.
\<close>

definition kwargs_of :: "json \<Rightarrow> exn + (string \<times> json) list" where
  "kwargs_of data = (case data of JObj kvs \<Rightarrow> Inr kvs | _ \<Rightarrow> Inl TypeError)"

definition unexpected_keyword :: "string list \<Rightarrow> (string \<times> json) list \<Rightarrow> bool" where
  "unexpected_keyword params kvs = list_ex (\<lambda>k. k \<notin> set params) (map fst kvs)"

definition required_arg :: "(string \<times> json) list \<Rightarrow> string \<Rightarrow> exn + json" where
  "required_arg kvs k = (case map_of kvs k of Some v \<Rightarrow> Inr v | None \<Rightarrow> Inl TypeError)"

definition optional_arg :: "(string \<times> json) list \<Rightarrow> string \<Rightarrow> json \<Rightarrow> json" where
  "optional_arg kvs k dflt = (case map_of kvs k of Some v \<Rightarrow> v | None \<Rightarrow> dflt)"

record CurrencyInfo =
  id' :: json
  symbol :: json
  name :: json
  supply' :: json
  issuer_id :: json
  description :: json

definition CurrencyInfo_params :: "string list" where
  "CurrencyInfo_params =
     [''id'', ''symbol'', ''name'', ''supply'', ''issuer_id'', ''description'']"

definition CurrencyInfo_init :: "json \<Rightarrow> exn + CurrencyInfo" where
  "CurrencyInfo_init data =
     bind_exn (kwargs_of data) (\<lambda>kvs.
       if unexpected_keyword CurrencyInfo_params kvs then Inl TypeError
       else
         bind_exn (required_arg kvs ''id'') (\<lambda>a1.
         bind_exn (required_arg kvs ''symbol'') (\<lambda>a2.
         bind_exn (required_arg kvs ''name'') (\<lambda>a3.
         bind_exn (required_arg kvs ''supply'') (\<lambda>a4.
         bind_exn (required_arg kvs ''issuer_id'') (\<lambda>a5.
         bind_exn (required_arg kvs ''description'') (\<lambda>a6.
           Inr \<lparr>id' = a1, symbol = a2, name = a3, supply' = a4,
                issuer_id = a5, description = a6\<rparr>)))))))"

text \<open>
  The annotations of lines 28 to 33, read as \<^verbatim>\<open>isinstance\<close> would test them
  (\<^verbatim>\<open>bool\<close> is a subclass of \<^verbatim>\<open>int\<close>). Nothing in the client evaluates them.
\<close>

fun is_int :: "json \<Rightarrow> bool" where
  "is_int (JInt i) = True"
| "is_int (JBool b) = True"
| "is_int v = False"

fun is_str :: "json \<Rightarrow> bool" where
  "is_str (JStr s) = True"
| "is_str v = False"

definition is_optional :: "(json \<Rightarrow> bool) \<Rightarrow> json \<Rightarrow> bool" where
  "is_optional p v = (v = JNull \<or> p v)"

definition CurrencyInfo_annotations_hold :: "CurrencyInfo \<Rightarrow> bool" where
  "CurrencyInfo_annotations_hold ci =
     (is_int (CurrencyInfo.id' ci) \<and> is_str (CurrencyInfo.symbol ci) \<and>
      is_str (CurrencyInfo.name ci) \<and> is_int (CurrencyInfo.supply' ci) \<and>
      is_optional is_int (CurrencyInfo.issuer_id ci) \<and>
      is_optional is_str (CurrencyInfo.description ci))"

record StockInfo =
  id' :: json
  symbol :: json
  name :: json
  supply' :: json
  issuer_id :: json
  industry :: json
  overview :: json

definition StockInfo_params :: "string list" where
  "StockInfo_params =
     [''id'', ''symbol'', ''name'', ''supply'', ''issuer_id'', ''industry'', ''overview'']"

definition StockInfo_init :: "json \<Rightarrow> exn + StockInfo" where
  "StockInfo_init data =
     bind_exn (kwargs_of data) (\<lambda>kvs.
       if unexpected_keyword StockInfo_params kvs then Inl TypeError
       else
         bind_exn (required_arg kvs ''id'') (\<lambda>a1.
         bind_exn (required_arg kvs ''symbol'') (\<lambda>a2.
         bind_exn (required_arg kvs ''name'') (\<lambda>a3.
         bind_exn (required_arg kvs ''supply'') (\<lambda>a4.
         bind_exn (required_arg kvs ''issuer_id'') (\<lambda>a5.
         bind_exn (required_arg kvs ''industry'') (\<lambda>a6.
         bind_exn (required_arg kvs ''overview'') (\<lambda>a7.
           Inr \<lparr>StockInfo.id' = a1, symbol = a2, name = a3, supply' = a4,
                issuer_id = a5, industry = a6, overview = a7\<rparr>))))))))"

record Balance =
  currencies :: json
  stocks :: json

definition Balance_params :: "string list" where
  "Balance_params = [''currencies'', ''stocks'']"

definition Balance_init :: "json \<Rightarrow> exn + Balance" where
  "Balance_init data =
     bind_exn (kwargs_of data) (\<lambda>kvs.
       if unexpected_keyword Balance_params kvs then Inl TypeError
       else
         bind_exn (required_arg kvs ''currencies'') (\<lambda>a1.
         bind_exn (required_arg kvs ''stocks'') (\<lambda>a2.
           Inr \<lparr>currencies = a1, stocks = a2\<rparr>)))"

record OrderbookEntry =
  price :: json
  amount :: json

definition OrderbookEntry_params :: "string list" where
  "OrderbookEntry_params = [''price'', ''amount'']"

definition OrderbookEntry_init :: "json \<Rightarrow> exn + OrderbookEntry" where
  "OrderbookEntry_init data =
     bind_exn (kwargs_of data) (\<lambda>kvs.
       if unexpected_keyword OrderbookEntry_params kvs then Inl TypeError
       else
         bind_exn (required_arg kvs ''price'') (\<lambda>a1.
         bind_exn (required_arg kvs ''amount'') (\<lambda>a2.
           Inr \<lparr>price = a1, amount = a2\<rparr>)))"

text \<open>
  \<^verbatim>\<open>Orderbook(**data)\<close> is called after \<^verbatim>\<open>data['orders']\<close> has been replaced by
  the list of hydrated entries, so the key \<^verbatim>\<open>orders\<close> is present and its value is
  that list; the other keys of \<^verbatim>\<open>data\<close> are bound as for every dataclass.
\<close>

record Orderbook =
  stock_symbol :: json
  orders :: "OrderbookEntry list"

definition Orderbook_params :: "string list" where
  "Orderbook_params = [''stock_symbol'', ''orders'']"

definition Orderbook_init :: "(string \<times> json) list \<Rightarrow> OrderbookEntry list \<Rightarrow> exn + Orderbook" where
  "Orderbook_init kvs entries =
     (if unexpected_keyword Orderbook_params kvs then Inl TypeError
      else
        bind_exn (required_arg kvs ''stock_symbol'') (\<lambda>a1.
          Inr \<lparr>stock_symbol = a1, orders = entries\<rparr>))"

record LiquidityInfo =
  currency_symbol :: json
  base_liquidity :: json
  pair_liquidity :: json
  total_lp_points :: json

definition LiquidityInfo_params :: "string list" where
  "LiquidityInfo_params =
     [''currency_symbol'', ''base_liquidity'', ''pair_liquidity'', ''total_lp_points'']"

definition LiquidityInfo_init :: "json \<Rightarrow> exn + LiquidityInfo" where
  "LiquidityInfo_init data =
     bind_exn (kwargs_of data) (\<lambda>kvs.
       if unexpected_keyword LiquidityInfo_params kvs then Inl TypeError
       else
         bind_exn (required_arg kvs ''currency_symbol'') (\<lambda>a1.
         bind_exn (required_arg kvs ''base_liquidity'') (\<lambda>a2.
         bind_exn (required_arg kvs ''pair_liquidity'') (\<lambda>a3.
         bind_exn (required_arg kvs ''total_lp_points'') (\<lambda>a4.
           Inr \<lparr>currency_symbol = a1, base_liquidity = a2,
                pair_liquidity = a3, total_lp_points = a4\<rparr>)))))"

text \<open>\<^verbatim>\<open>details\<close> has the default \<^verbatim>\<open>None\<close>; \<^verbatim>\<open>message\<close> has none.\<close>

record SuccessResponse =
  message :: json
  details :: json

definition SuccessResponse_params :: "string list" where
  "SuccessResponse_params = [''message'', ''details'']"

definition SuccessResponse_init :: "json \<Rightarrow> exn + SuccessResponse" where
  "SuccessResponse_init data =
     bind_exn (kwargs_of data) (\<lambda>kvs.
       if unexpected_keyword SuccessResponse_params kvs then Inl TypeError
       else
         bind_exn (required_arg kvs ''message'') (\<lambda>a1.
           Inr \<lparr>message = a1, details = optional_arg kvs ''details'' JNull\<rparr>))"

section \<open>The transport: \<^verbatim>\<open>_request\<close>\<close>

text \<open>
  Lines 181 to 185: the detail of a non-success response. \<^verbatim>\<open>.get\<close> exists on
  dictionaries only; on any other decoded value the attribute lookup raises
  \<^verbatim>\<open>AttributeError\<close>, which the inner handler does not catch.
\<close>

definition error_detail :: "response \<Rightarrow> exn + json" where
  "error_detail r =
     (case json_result r of
        Inl msg \<Rightarrow> Inr (JStr (text' r))
      | Inr v \<Rightarrow> py_get v ''detail'' (JStr ''Unknown error''))"

text \<open>Lines 178 to 191: the body of the \<^verbatim>\<open>try\<close> block, given what the session did.\<close>

definition try_body :: "outcome \<Rightarrow> exn + json" where
  "try_body out =
     (case out of
        Raises e \<Rightarrow> Inl e
      | Returns r \<Rightarrow>
          if \<not> response_ok r then
            (case error_detail r of
               Inl e \<Rightarrow> Inl e
             | Inr d \<Rightarrow> Inl (RapidWireAPIError (status_code r) d))
          else if status_code r = 204 then Inr JNull
          else (case json_result r of
                  Inl msg \<Rightarrow> Inl (RequestException (JSONDecodeError msg))
                | Inr v \<Rightarrow> Inr v))"

text \<open>
  Lines 192 and 193: the handler catches every \<^verbatim>\<open>RequestException\<close> and nothing
  else; any other exception leaves \<^verbatim>\<open>_request\<close> as it is.
\<close>

definition except_RequestException :: "exn + json \<Rightarrow> exn + json" where
  "except_RequestException res =
     (case res of
        Inl (RequestException e) \<Rightarrow>
          Inl (RapidWireAPIError 500 (JStr (''Request failed: '' @ exception_str e)))
      | _ \<Rightarrow> res)"

text \<open>Lines 176 and 178: what the session is asked to send.\<close>

definition prepared :: "client \<Rightarrow> string \<Rightarrow> string \<Rightarrow> kwargs \<Rightarrow> http_request" where
  "prepared c m endpoint kw =
     \<lparr>method' = m, url = base_url c @ endpoint, headers = session_headers c, kwargs = kw\<rparr>"

definition private_request ::
  "client \<Rightarrow> string \<Rightarrow> string \<Rightarrow> kwargs \<Rightarrow> world \<Rightarrow> (exn + json) \<times> world" where
  "private_request c m endpoint kw w =
     (let req = prepared c m endpoint kw
      in (except_RequestException (try_body (respond w req)),
          w\<lparr>sent := sent w @ [req]\<rparr>))"

section \<open>Endpoint operations\<close>

text \<open>
  Every operation builds its path or payload, calls \<^verbatim>\<open>_request\<close> once and hands the
  decoded value to a dataclass. An exception of \<^verbatim>\<open>_request\<close> ends the operation.
\<close>

definition get_version :: "client \<Rightarrow> world \<Rightarrow> (exn + SuccessResponse) \<times> world" where
  "get_version c w =
     (let (res, w') = private_request c ''GET'' ''/version'' NoKwargs w
      in (bind_exn res SuccessResponse_init, w'))"

definition get_balance :: "client \<Rightarrow> world \<Rightarrow> (exn + Balance) \<times> world" where
  "get_balance c w =
     (let (res, w') = private_request c ''GET'' ''/account/balance'' NoKwargs w
      in (bind_exn res Balance_init, w'))"

definition get_currency_info ::
  "client \<Rightarrow> string \<Rightarrow> world \<Rightarrow> (exn + CurrencyInfo) \<times> world" where
  "get_currency_info c symb w =
     (let (res, w') = private_request c ''GET'' (''/currency/'' @ upper symb) NoKwargs w
      in (bind_exn res CurrencyInfo_init, w'))"

definition get_stock_info ::
  "client \<Rightarrow> string \<Rightarrow> world \<Rightarrow> (exn + StockInfo) \<times> world" where
  "get_stock_info c symb w =
     (let (res, w') = private_request c ''GET'' (''/stock/'' @ upper symb) NoKwargs w
      in (bind_exn res StockInfo_init, w'))"

definition transfer_payload :: "int \<Rightarrow> string \<Rightarrow> int \<Rightarrow> json" where
  "transfer_payload recipient_id asset_symbol amt =
     JObj [(''recipient_id'', JInt recipient_id),
           (''asset_symbol'', JStr (upper asset_symbol)),
           (''amount'', JInt amt)]"

definition transfer_currency ::
  "client \<Rightarrow> int \<Rightarrow> string \<Rightarrow> int \<Rightarrow> world \<Rightarrow> (exn + SuccessResponse) \<times> world" where
  "transfer_currency c recipient_id asset_symbol amt w =
     (let payload = transfer_payload recipient_id asset_symbol amt;
          (res, w') = private_request c ''POST'' ''/currency/transfer'' (Json payload) w
      in (bind_exn res SuccessResponse_init, w'))"

definition transfer_stock ::
  "client \<Rightarrow> int \<Rightarrow> string \<Rightarrow> int \<Rightarrow> world \<Rightarrow> (exn + SuccessResponse) \<times> world" where
  "transfer_stock c recipient_id asset_symbol amt w =
     (let payload = transfer_payload recipient_id asset_symbol amt;
          (res, w') = private_request c ''POST'' ''/stock/transfer'' (Json payload) w
      in (bind_exn res SuccessResponse_init, w'))"

text \<open>
  Lines 259 to 261: the entries are hydrated one by one, in the order of the iteration,
  before \<^verbatim>\<open>Orderbook\<close> is called.
\<close>

definition hydrate_orderbook :: "json \<Rightarrow> exn + Orderbook" where
  "hydrate_orderbook data =
     bind_exn (getitem data ''orders'') (\<lambda>v.
     bind_exn (py_iter v) (\<lambda>es.
     bind_exn (map_exn OrderbookEntry_init es) (\<lambda>entries.
     bind_exn (kwargs_of data) (\<lambda>kvs.
       Orderbook_init kvs entries))))"

definition get_stock_orderbook ::
  "client \<Rightarrow> string \<Rightarrow> world \<Rightarrow> (exn + Orderbook) \<times> world" where
  "get_stock_orderbook c symb w =
     (let (res, w') =
            private_request c ''GET'' (''/stock/'' @ upper symb @ ''/orderbook'') NoKwargs w
      in (bind_exn res hydrate_orderbook, w'))"

definition create_sell_order ::
  "client \<Rightarrow> string \<Rightarrow> int \<Rightarrow> int \<Rightarrow> world \<Rightarrow> (exn + SuccessResponse) \<times> world" where
  "create_sell_order c stock_sym prc amt w =
     (let payload = JObj [(''stock_symbol'', JStr (upper stock_sym)),
                          (''price'', JInt prc),
                          (''amount'', JInt amt)];
          (res, w') = private_request c ''POST'' ''/market/stock/sell-order'' (Json payload) w
      in (bind_exn res SuccessResponse_init, w'))"

definition market_buy_stock ::
  "client \<Rightarrow> string \<Rightarrow> int \<Rightarrow> world \<Rightarrow> (exn + SuccessResponse) \<times> world" where
  "market_buy_stock c stock_sym amt w =
     (let payload = JObj [(''stock_symbol'', JStr (upper stock_sym)),
                          (''amount'', JInt amt)];
          (res, w') = private_request c ''POST'' ''/market/stock/market-buy'' (Json payload) w
      in (bind_exn res SuccessResponse_init, w'))"

definition get_liquidity_info ::
  "client \<Rightarrow> string \<Rightarrow> world \<Rightarrow> (exn + LiquidityInfo) \<times> world" where
  "get_liquidity_info c symb w =
     (let (res, w') =
            private_request c ''GET'' (''/market/currency/liquidity/'' @ upper symb) NoKwargs w
      in (bind_exn res LiquidityInfo_init, w'))"

definition swap_payload :: "string \<Rightarrow> int \<Rightarrow> json" where
  "swap_payload currency_sym amount_in =
     JObj [(''currency_symbol'', JStr (upper currency_sym)),
           (''amount'', JInt amount_in)]"

definition buy_currency ::
  "client \<Rightarrow> string \<Rightarrow> int \<Rightarrow> world \<Rightarrow> (exn + SuccessResponse) \<times> world" where
  "buy_currency c currency_sym amount_in w =
     (let payload = swap_payload currency_sym amount_in;
          (res, w') = private_request c ''POST'' ''/market/currency/buy'' (Json payload) w
      in (bind_exn res SuccessResponse_init, w'))"

definition sell_currency ::
  "client \<Rightarrow> string \<Rightarrow> int \<Rightarrow> world \<Rightarrow> (exn + SuccessResponse) \<times> world" where
  "sell_currency c currency_sym amount_in w =
     (let payload = swap_payload currency_sym amount_in;
          (res, w') = private_request c ''POST'' ''/market/currency/sell'' (Json payload) w
      in (bind_exn res SuccessResponse_init, w'))"

section \<open>Construction and the version check\<close>

definition CLIENT_VERSION :: string where
  "CLIENT_VERSION = ''1.0.0''"

definition print :: "warning \<Rightarrow> world \<Rightarrow> world" where
  "print msg w = w\<lparr>stdout := stdout w @ [msg]\<rparr>"

text \<open>
  \<^verbatim>\<open>x.split('.')[0]\<close> for the value read from the response: only a string has the
  attribute \<^verbatim>\<open>split\<close>.
\<close>

definition major_of :: "json \<Rightarrow> exn + string" where
  "major_of v =
     (case v of
        JStr s \<Rightarrow> index0 (split CHR ''.'' s)
      | _ \<Rightarrow> Inl AttributeError)"

text \<open>
  Lines 147 to 154, reached with a value that is not falsy. The warning carries
  \<^verbatim>\<open>CLIENT_VERSION\<close> and the server's value, both in full.
\<close>

definition compare_majors :: "json \<Rightarrow> world \<Rightarrow> (exn + unit) \<times> world" where
  "compare_majors server_version_str w =
     (case index0 (split CHR ''.'' CLIENT_VERSION) of
        Inl e \<Rightarrow> (Inl e, w)
      | Inr client_major \<Rightarrow>
          (case major_of server_version_str of
             Inl e \<Rightarrow> (Inl e, w)
           | Inr server_major \<Rightarrow>
               if client_major \<noteq> server_major then
                 (Inr (),
                  print (MajorMismatch CLIENT_VERSION server_version_str) w)
               else (Inr (), w)))"

text \<open>
  Lines 137 to 159. The handler catches \<^verbatim>\<open>RapidWireAPIError\<close> only; any other
  exception raised in the \<^verbatim>\<open>try\<close> block leaves \<^verbatim>\<open>_check_version\<close>.
\<close>

definition private_check_version :: "client \<Rightarrow> world \<Rightarrow> (exn + unit) \<times> world" where
  "private_check_version c w =
     (let (res, w') = get_version c w
      in case res of
           Inl (RapidWireAPIError sc d) \<Rightarrow>
             (Inr (), print (ConnectFailed (RapidWireAPIError sc d)) w')
         | Inl e \<Rightarrow> (Inl e, w')
         | Inr server_version_response \<Rightarrow>
             (case py_get (details server_version_response) ''version'' JNull of
                Inl e \<Rightarrow> (Inl e, w')
              | Inr server_version_str \<Rightarrow>
                  if \<not> truthy server_version_str then (Inr (), print VersionUnknown w')
                  else compare_majors server_version_str w'))"

text \<open>
  Lines 120 to 130. The session keeps the two headers that \<^verbatim>\<open>__init__\<close> sets; the
  client is the object under construction, returned when \<^verbatim>\<open>__init__\<close> does not raise.
\<close>

definition RapidWireClient_init :: "string \<Rightarrow> string \<Rightarrow> world \<Rightarrow> (exn + client) \<times> world" where
  "RapidWireClient_init api_key base w =
     (if api_key = [] then (Inl ValueError, w)
      else
        let c = \<lparr>base_url = rstrip CHR ''/'' base,
                 session_headers = [(''API-Key'', api_key),
                                    (''Content-Type'', ''application/json'')]\<rparr>;
            (res, w') = private_check_version c w
        in (case res of Inl e \<Rightarrow> (Inl e, w') | Inr u \<Rightarrow> (Inr c, w')))"

section \<open>Example exchanges\<close>

text \<open>A client as the constructor builds it, and a world whose network always answers alike.\<close>

definition example_client :: client where
  "example_client =
     \<lparr>base_url = ''http://127.0.0.1:14550'',
      session_headers = [(''API-Key'', ''secret''), (''Content-Type'', ''application/json'')]\<rparr>"

definition answering :: "outcome \<Rightarrow> world" where
  "answering out = \<lparr>respond = (\<lambda>req. out), sent = [], stdout = []\<rparr>"

section \<open>Facts about the transport\<close>

lemma private_request_fst:
  "fst (private_request c m endpoint kw w) =
     except_RequestException (try_body (respond w (prepared c m endpoint kw)))"
  by (simp add: private_request_def Let_def)

lemma private_request_snd:
  "snd (private_request c m endpoint kw w) = w\<lparr>sent := sent w @ [prepared c m endpoint kw]\<rparr>"
  by (simp add: private_request_def Let_def)

lemma try_body_error:
  "\<not> response_ok r \<Longrightarrow>
   try_body (Returns r) =
     (case error_detail r of
        Inl e \<Rightarrow> Inl e
      | Inr d \<Rightarrow> Inl (RapidWireAPIError (status_code r) d))"
  by (simp add: try_body_def)

lemma try_body_success:
  "response_ok r \<Longrightarrow> status_code r \<noteq> 204 \<Longrightarrow> json_result r = Inr v \<Longrightarrow>
   try_body (Returns r) = Inr v"
  by (simp add: try_body_def)

lemma except_RequestException_Inr: "except_RequestException (Inr v) = Inr v"
  by (simp add: except_RequestException_def)

lemma except_RequestException_ApiError:
  "except_RequestException (Inl (RapidWireAPIError sc d)) = Inl (RapidWireAPIError sc d)"
  by (simp add: except_RequestException_def)

lemma private_request_success:
  assumes "respond w (prepared c m endpoint kw) = Returns r"
    and "response_ok r" and "status_code r \<noteq> 204" and "json_result r = Inr v"
  shows "fst (private_request c m endpoint kw w) = Inr v"
  using assms by (simp add: private_request_fst try_body_success except_RequestException_Inr)

subsection \<open>Transport failures\<close>

text \<open>
  Claim C5. Whenever the session raises a \<^verbatim>\<open>RequestException\<close> (a refused connection,
  a DNS failure, a timeout, a TLS failure), \<^verbatim>\<open>_request\<close> raises a
  \<open>RapidWireAPIError\<close> with status code 500 whose detail is a non-empty string built
  from the description of the failure.
\<close>

theorem transport_failure_is_api_error_500:
  assumes "respond w (prepared c m endpoint kw) = Raises (RequestException e)"
  shows "fst (private_request c m endpoint kw w) =
           Inl (RapidWireAPIError 500 (JStr (''Request failed: '' @ exception_str e)))
         \<and> ''Request failed: '' @ exception_str e \<noteq> []"
  using assms
  by (simp add: private_request_fst try_body_def except_RequestException_def)

theorem transport_failure_is_api_error_500_witness:
  "fst (private_request example_client ''GET'' ''/account/balance'' NoKwargs
          (answering (Raises (RequestException (ConnectionError ''Connection refused'')))))
     = Inl (RapidWireAPIError 500 (JStr ''Request failed: Connection refused''))"
proof -
  have "respond (answering (Raises (RequestException (ConnectionError ''Connection refused''))))
          (prepared example_client ''GET'' ''/account/balance'' NoKwargs)
        = Raises (RequestException (ConnectionError ''Connection refused''))"
    by (simp add: answering_def)
  from transport_failure_is_api_error_500 [OF this] show ?thesis by simp
qed

subsection \<open>No content\<close>

text \<open>
  Claim C6. For every response with status 204, whatever its body, \<^verbatim>\<open>_request\<close>
  returns \<^verbatim>\<open>None\<close>: it does not raise, it does not decode the body, and the value
  is not an empty dictionary.
\<close>

theorem status_204_returns_None:
  assumes "respond w (prepared c m endpoint kw) = Returns r" and "status_code r = 204"
  shows "fst (private_request c m endpoint kw w) = Inr JNull
         \<and> fst (private_request c m endpoint kw w) \<noteq> Inr (JObj [])"
  using assms
  by (simp add: private_request_fst try_body_def except_RequestException_def response_ok_def)

theorem status_204_returns_None_witness:
  "fst (private_request example_client ''DELETE'' ''/market/stock/sell-order/7'' NoKwargs
          (answering (Returns \<lparr>status_code = 204, text' = ''{}'',
             json_result = Inr (JObj [])\<rparr>)))
     = Inr JNull"
proof -
  let ?r = "\<lparr>status_code = 204, text' = ''{}'', json_result = Inr (JObj [])\<rparr>"
  have a: "respond (answering (Returns ?r))
             (prepared example_client ''DELETE'' ''/market/stock/sell-order/7'' NoKwargs)
           = Returns ?r"
    by (simp add: answering_def)
  have b: "status_code ?r = 204" by simp
  from status_204_returns_None [OF a b] show ?thesis by simp
qed

subsection \<open>Undecodable success bodies\<close>

text \<open>
  Claim C10. For every response with a 2xx status other than 204 whose body does not
  decode as JSON, \<^verbatim>\<open>_request\<close> raises a \<open>RapidWireAPIError\<close> with status code 500
  and a detail built from the decoder's message; it neither returns a value nor lets the
  decoder's exception through.
\<close>

theorem undecodable_success_body_is_api_error_500:
  assumes "respond w (prepared c m endpoint kw) = Returns r"
    and "200 \<le> status_code r" and "status_code r < 300" and "status_code r \<noteq> 204"
    and "json_result r = Inl msg"
  shows "fst (private_request c m endpoint kw w) =
           Inl (RapidWireAPIError 500 (JStr (''Request failed: '' @ msg)))"
  using assms
  by (simp add: private_request_fst try_body_def except_RequestException_def response_ok_def)

theorem undecodable_success_body_is_api_error_500_witness:
  "fst (private_request example_client ''GET'' ''/config'' NoKwargs
          (answering (Returns \<lparr>status_code = 200, text' = ''<html>hello</html>'',
             json_result = Inl ''Expecting value: line 1 column 1 (char 0)''\<rparr>)))
     = Inl (RapidWireAPIError 500
              (JStr ''Request failed: Expecting value: line 1 column 1 (char 0)''))"
proof -
  let ?r = "\<lparr>status_code = 200, text' = ''<html>hello</html>'',
             json_result = Inl ''Expecting value: line 1 column 1 (char 0)''\<rparr>"
  have a: "respond (answering (Returns ?r)) (prepared example_client ''GET'' ''/config'' NoKwargs)
           = Returns ?r"
    by (simp add: answering_def)
  have "200 \<le> status_code ?r" "status_code ?r < 300" "status_code ?r \<noteq> 204"
    "json_result ?r = Inl ''Expecting value: line 1 column 1 (char 0)''"
    by simp_all
  from undecodable_success_body_is_api_error_500 [OF a this] show ?thesis by simp
qed

subsection \<open>The detail of a non-success response\<close>

text \<open>
  Claim C1, as the code has it. For every response that \<^verbatim>\<open>_request\<close> treats as a
  failure: when the body decodes to a JSON object with a \<^verbatim>\<open>detail\<close> field, the
  detail of the raised \<open>RapidWireAPIError\<close> is that field's value; when it decodes to an
  object without that field, the detail is the literal \<^verbatim>\<open>Unknown error\<close>; when it
  does not decode, the detail is the raw body text. In each case the error carries the
  status code of the response.
\<close>

theorem error_detail_resolution:
  assumes "respond w (prepared c m endpoint kw) = Returns r" and "\<not> response_ok r"
  shows "(\<forall>kvs d. json_result r = Inr (JObj kvs) \<longrightarrow> map_of kvs ''detail'' = Some d \<longrightarrow>
            fst (private_request c m endpoint kw w) = Inl (RapidWireAPIError (status_code r) d))
       \<and> (\<forall>kvs. json_result r = Inr (JObj kvs) \<longrightarrow> map_of kvs ''detail'' = None \<longrightarrow>
            fst (private_request c m endpoint kw w) =
              Inl (RapidWireAPIError (status_code r) (JStr ''Unknown error'')))
       \<and> (\<forall>msg. json_result r = Inl msg \<longrightarrow>
            fst (private_request c m endpoint kw w) =
              Inl (RapidWireAPIError (status_code r) (JStr (text' r))))"
  using assms
  by (simp add: private_request_fst try_body_error error_detail_def py_get_def
        except_RequestException_ApiError)

theorem error_detail_resolution_witness:
  "fst (private_request example_client ''GET'' ''/currency/XYZ'' NoKwargs
         (answering (Returns \<lparr>status_code = 404,
            text' = ''{\"detail\": \"Currency not found\"}'',
            json_result = Inr (JObj [(''detail'', JStr ''Currency not found'')])\<rparr>)))
     = Inl (RapidWireAPIError 404 (JStr ''Currency not found''))
   \<and> fst (private_request example_client ''GET'' ''/currency/XYZ'' NoKwargs
         (answering (Returns \<lparr>status_code = 500,
            text' = ''{\"error\": \"boom\"}'',
            json_result = Inr (JObj [(''error'', JStr ''boom'')])\<rparr>)))
     = Inl (RapidWireAPIError 500 (JStr ''Unknown error''))
   \<and> fst (private_request example_client ''GET'' ''/currency/XYZ'' NoKwargs
         (answering (Returns \<lparr>status_code = 503,
            text' = ''Service Unavailable'',
            json_result = Inl ''Expecting value: line 1 column 1 (char 0)''\<rparr>)))
     = Inl (RapidWireAPIError 503 (JStr ''Service Unavailable''))"
proof -
  let ?go = "\<lambda>r. fst (private_request example_client ''GET'' ''/currency/XYZ'' NoKwargs
                      (answering (Returns r)))"
  let ?r1 = "\<lparr>status_code = 404, text' = ''{\"detail\": \"Currency not found\"}'',
              json_result = Inr (JObj [(''detail'', JStr ''Currency not found'')])\<rparr>"
  let ?r2 = "\<lparr>status_code = 500, text' = ''{\"error\": \"boom\"}'',
              json_result = Inr (JObj [(''error'', JStr ''boom'')])\<rparr>"
  let ?r3 = "\<lparr>status_code = 503, text' = ''Service Unavailable'',
              json_result = Inl ''Expecting value: line 1 column 1 (char 0)''\<rparr>"
  have a: "respond (answering (Returns r)) q = Returns r" for r q
    by (simp add: answering_def)
  have b1: "\<not> response_ok ?r1" and b2: "\<not> response_ok ?r2" and b3: "\<not> response_ok ?r3"
    by (simp_all add: response_ok_def)
  from error_detail_resolution [OF a b1] have "?go ?r1 = Inl (RapidWireAPIError 404 (JStr ''Currency not found''))"
    by simp
  moreover from error_detail_resolution [OF a b2] have "?go ?r2 = Inl (RapidWireAPIError 500 (JStr ''Unknown error''))"
    by simp
  moreover from error_detail_resolution [OF a b3] have "?go ?r3 = Inl (RapidWireAPIError 503 (JStr ''Service Unavailable''))"
    by simp
  ultimately show ?thesis by simp
qed

text \<open>
  Claim C1 as stated fails for the empty body. An empty body does not decode, so the
  handler of the decoding failure assigns the raw text: the detail is the empty string,
  not \<^verbatim>\<open>Unknown error\<close>.
\<close>

theorem empty_body_detail_counterexample:
  "text' \<lparr>status_code = 502, text' = [],
           json_result = Inl ''Expecting value: line 1 column 1 (char 0)''\<rparr> = []
   \<and> \<not> response_ok \<lparr>status_code = 502, text' = [],
           json_result = Inl ''Expecting value: line 1 column 1 (char 0)''\<rparr>
   \<and> fst (private_request example_client ''GET'' ''/version'' NoKwargs
         (answering (Returns \<lparr>status_code = 502, text' = [],
            json_result = Inl ''Expecting value: line 1 column 1 (char 0)''\<rparr>)))
       = Inl (RapidWireAPIError 502 (JStr []))
   \<and> fst (private_request example_client ''GET'' ''/version'' NoKwargs
         (answering (Returns \<lparr>status_code = 502, text' = [],
            json_result = Inl ''Expecting value: line 1 column 1 (char 0)''\<rparr>)))
       \<noteq> Inl (RapidWireAPIError 502 (JStr ''Unknown error''))"
  by (simp add: private_request_fst answering_def response_ok_def try_body_def error_detail_def
        except_RequestException_def)

section \<open>Facts about the dataclasses\<close>

lemma unexpected_keyword_iff:
  "unexpected_keyword params kvs \<longleftrightarrow> \<not> set (map fst kvs) \<subseteq> set params"
  by (auto simp add: unexpected_keyword_def list_ex_iff)

lemma required_arg_present: "map_of kvs k = Some v \<Longrightarrow> required_arg kvs k = Inr v"
  by (simp add: required_arg_def)

lemma required_arg_Inl_iff:
  "required_arg kvs k = Inl e \<longleftrightarrow> e = TypeError \<and> k \<notin> set (map fst kvs)"
proof (cases "map_of kvs k")
  case None
  then have "k \<notin> fst ` set kvs"
    by (simp add: map_of_eq_None_iff)
  with None show ?thesis
    by (auto simp add: required_arg_def)
next
  case (Some v)
  then have "k \<in> fst ` set kvs"
    by (force dest: map_of_SomeD)
  with Some show ?thesis
    by (simp add: required_arg_def)
qed

lemma required_arg_Inr_key: "required_arg kvs k = Inr v \<Longrightarrow> k \<in> fst ` set kvs"
  by (cases "map_of kvs k") (force simp add: required_arg_def dest: map_of_SomeD)+

lemma key_has_value: "k \<in> set (map fst kvs) \<Longrightarrow> \<exists>v. map_of kvs k = Some v"
  by (cases "map_of kvs k") (auto simp add: map_of_eq_None_iff)

lemma bind_exn_Inr: "bind_exn (Inr x) f = f x"
  by (simp add: bind_exn_def)

lemma CurrencyInfo_init_exact:
  assumes "set (map fst kvs) = set CurrencyInfo_params"
  shows "\<exists>info. CurrencyInfo_init (JObj kvs) = Inr info
           \<and> map_of kvs ''id'' = Some (CurrencyInfo.id' info)
           \<and> map_of kvs ''symbol'' = Some (CurrencyInfo.symbol info)
           \<and> map_of kvs ''name'' = Some (CurrencyInfo.name info)
           \<and> map_of kvs ''supply'' = Some (CurrencyInfo.supply' info)
           \<and> map_of kvs ''issuer_id'' = Some (CurrencyInfo.issuer_id info)
           \<and> map_of kvs ''description'' = Some (description info)"
proof -
  have no_extra: "\<not> unexpected_keyword CurrencyInfo_params kvs"
    using assms by (simp add: unexpected_keyword_iff)
  have "\<exists>v. map_of kvs k = Some v" if "k \<in> set CurrencyInfo_params" for k
    using that assms by (intro key_has_value) simp
  then obtain a1 a2 a3 a4 a5 a6 where
    "map_of kvs ''id'' = Some a1" "map_of kvs ''symbol'' = Some a2"
    "map_of kvs ''name'' = Some a3" "map_of kvs ''supply'' = Some a4"
    "map_of kvs ''issuer_id'' = Some a5" "map_of kvs ''description'' = Some a6"
    unfolding CurrencyInfo_params_def by (meson list.set_intros)
  with no_extra show ?thesis
    by (simp add: CurrencyInfo_init_def kwargs_of_def bind_exn_Inr required_arg_present)
qed

lemma CurrencyInfo_init_extra:
  assumes "\<not> set (map fst kvs) \<subseteq> set CurrencyInfo_params"
  shows "CurrencyInfo_init (JObj kvs) = Inl TypeError"
  using assms
  by (simp add: CurrencyInfo_init_def kwargs_of_def bind_exn_Inr unexpected_keyword_iff)

lemma CurrencyInfo_init_missing:
  assumes "\<not> set CurrencyInfo_params \<subseteq> set (map fst kvs)"
  shows "CurrencyInfo_init (JObj kvs) = Inl TypeError"
proof -
  from assms obtain k where k: "k \<in> set CurrencyInfo_params" "k \<notin> set (map fst kvs)"
    by auto
  then show ?thesis
    by (auto simp add: CurrencyInfo_init_def CurrencyInfo_params_def kwargs_of_def
          bind_exn_def required_arg_Inl_iff split: sum.splits dest: required_arg_Inr_key)
qed

lemma Balance_init_exact:
  assumes "set (map fst kvs) = set Balance_params"
  shows "\<exists>b. Balance_init (JObj kvs) = Inr b
           \<and> map_of kvs ''currencies'' = Some (currencies b)
           \<and> map_of kvs ''stocks'' = Some (stocks b)"
proof -
  have no_extra: "\<not> unexpected_keyword Balance_params kvs"
    using assms by (simp add: unexpected_keyword_iff)
  have "\<exists>v. map_of kvs k = Some v" if "k \<in> set Balance_params" for k
    using that assms by (intro key_has_value) simp
  then obtain a1 a2 where
    "map_of kvs ''currencies'' = Some a1" "map_of kvs ''stocks'' = Some a2"
    unfolding Balance_params_def by (meson list.set_intros)
  with no_extra show ?thesis
    by (simp add: Balance_init_def kwargs_of_def bind_exn_Inr required_arg_present)
qed

lemma Balance_init_extra:
  assumes "\<not> set (map fst kvs) \<subseteq> set Balance_params"
  shows "Balance_init (JObj kvs) = Inl TypeError"
  using assms
  by (simp add: Balance_init_def kwargs_of_def bind_exn_Inr unexpected_keyword_iff)

lemma Balance_init_missing:
  assumes "\<not> set Balance_params \<subseteq> set (map fst kvs)"
  shows "Balance_init (JObj kvs) = Inl TypeError"
proof -
  from assms obtain k where k: "k \<in> set Balance_params" "k \<notin> set (map fst kvs)"
    by auto
  then show ?thesis
    by (auto simp add: Balance_init_def Balance_params_def kwargs_of_def
          bind_exn_def required_arg_Inl_iff split: sum.splits dest: required_arg_Inr_key)
qed

lemma answering_respond: "respond (answering out) req = out"
  by (simp add: answering_def)

lemma get_currency_info_fst:
  "fst (get_currency_info c symb w) =
     bind_exn (fst (private_request c ''GET'' (''/currency/'' @ upper symb) NoKwargs w))
       CurrencyInfo_init"
  by (simp add: get_currency_info_def case_prod_beta)

lemma get_balance_fst:
  "fst (get_balance c w) =
     bind_exn (fst (private_request c ''GET'' ''/account/balance'' NoKwargs w)) Balance_init"
  by (simp add: get_balance_def case_prod_beta)

subsection \<open>Field values are stored as they come\<close>

text \<open>
  Claim C3, as the code has it. \<^verbatim>\<open>get_currency_info\<close> performs no type check and no
  coercion: for every success response whose body decodes to an object with exactly the
  six declared field names, the operation returns a \<open>CurrencyInfo\<close> whose fields hold
  exactly the values of the object, whatever their types.
\<close>

theorem currency_info_fields_stored_unchecked:
  assumes "respond w (prepared c ''GET'' (''/currency/'' @ upper symb) NoKwargs) = Returns r"
    and "response_ok r" and "status_code r \<noteq> 204"
    and "json_result r = Inr (JObj kvs)"
    and "set (map fst kvs) = set CurrencyInfo_params"
  shows "\<exists>info. fst (get_currency_info c symb w) = Inr info
           \<and> map_of kvs ''id'' = Some (CurrencyInfo.id' info)
           \<and> map_of kvs ''symbol'' = Some (CurrencyInfo.symbol info)
           \<and> map_of kvs ''name'' = Some (CurrencyInfo.name info)
           \<and> map_of kvs ''supply'' = Some (CurrencyInfo.supply' info)
           \<and> map_of kvs ''issuer_id'' = Some (CurrencyInfo.issuer_id info)
           \<and> map_of kvs ''description'' = Some (CurrencyInfo.description info)"
proof -
  have "fst (get_currency_info c symb w) = CurrencyInfo_init (JObj kvs)"
    using assms(1-4) by (simp add: get_currency_info_fst private_request_success bind_exn_Inr)
  with CurrencyInfo_init_exact [OF assms(5)] show ?thesis
    by simp
qed

theorem currency_info_fields_stored_unchecked_witness:
  "\<exists>info. fst (get_currency_info example_client ''jpy''
             (answering (Returns \<lparr>status_code = 200,
                text' = ''{\"id\": 3, \"symbol\": 392, \"name\": \"Yen\", \"supply\": \"lots\", \"issuer_id\": null, \"description\": []}'',
                json_result = Inr (JObj [(''id'', JInt 3), (''symbol'', JInt 392),
                  (''name'', JStr ''Yen''), (''supply'', JStr ''lots''),
                  (''issuer_id'', JNull), (''description'', JArr [])])\<rparr>))) = Inr info
      \<and> CurrencyInfo.symbol info = JInt 392
      \<and> CurrencyInfo.supply' info = JStr ''lots''
      \<and> CurrencyInfo.description info = JArr []"
proof -
  let ?kvs = "[(''id'', JInt 3), (''symbol'', JInt 392), (''name'', JStr ''Yen''),
               (''supply'', JStr ''lots''), (''issuer_id'', JNull), (''description'', JArr [])]"
  let ?r = "\<lparr>status_code = 200,
             text' = ''{\"id\": 3, \"symbol\": 392, \"name\": \"Yen\", \"supply\": \"lots\", \"issuer_id\": null, \"description\": []}'',
             json_result = Inr (JObj ?kvs)\<rparr>"
  have a: "respond (answering (Returns ?r))
             (prepared example_client ''GET'' (''/currency/'' @ upper ''jpy'') NoKwargs) = Returns ?r"
    by (rule answering_respond)
  have b: "response_ok ?r" "status_code ?r \<noteq> 204" "json_result ?r = Inr (JObj ?kvs)"
    by (simp_all add: response_ok_def)
  have c: "set (map fst ?kvs) = set CurrencyInfo_params"
    by (simp add: CurrencyInfo_params_def)
  from currency_info_fields_stored_unchecked [OF a b c]
  obtain info where
    "fst (get_currency_info example_client ''jpy'' (answering (Returns ?r))) = Inr info"
    "map_of ?kvs ''symbol'' = Some (CurrencyInfo.symbol info)"
    "map_of ?kvs ''supply'' = Some (CurrencyInfo.supply' info)"
    "map_of ?kvs ''description'' = Some (CurrencyInfo.description info)"
    by blast
  then show ?thesis
    by (intro exI [of _ info]) simp
qed

text \<open>
  Claim C3 as stated fails: a string where the annotation says \<^verbatim>\<open>int\<close> is stored in
  the record, and the operation returns normally.
\<close>

theorem mistyped_field_accepted_counterexample:
  "fst (get_currency_info example_client ''usd''
          (answering (Returns \<lparr>status_code = 200,
             text' = ''{\"id\": \"7\", \"symbol\": \"USD\", \"name\": \"Dollar\", \"supply\": 1000, \"issuer_id\": null, \"description\": null}'',
             json_result = Inr (JObj [(''id'', JStr ''7''), (''symbol'', JStr ''USD''),
               (''name'', JStr ''Dollar''), (''supply'', JInt 1000),
               (''issuer_id'', JNull), (''description'', JNull)])\<rparr>)))
     = Inr \<lparr>CurrencyInfo.id' = JStr ''7'', symbol = JStr ''USD'', name = JStr ''Dollar'',
             supply' = JInt 1000, issuer_id = JNull, description = JNull\<rparr>
   \<and> \<not> is_int (JStr ''7'')
   \<and> \<not> CurrencyInfo_annotations_hold
          \<lparr>CurrencyInfo.id' = JStr ''7'', symbol = JStr ''USD'', name = JStr ''Dollar'',
           supply' = JInt 1000, issuer_id = JNull, description = JNull\<rparr>"
  by (simp add: get_currency_info_fst private_request_fst answering_respond try_body_def
        response_ok_def except_RequestException_def bind_exn_def CurrencyInfo_init_def
        kwargs_of_def unexpected_keyword_def CurrencyInfo_params_def required_arg_def
        CurrencyInfo_annotations_hold_def)

subsection \<open>The keys of the object and the declared fields\<close>

text \<open>
  Claim C4, as the code has it. For \<^verbatim>\<open>get_balance\<close> and \<^verbatim>\<open>get_currency_info\<close>, on a
  success response whose body decodes to an object: a key that is not a declared field
  makes the operation raise \<^verbatim>\<open>TypeError\<close>, a declared field that is not a key makes
  it raise \<^verbatim>\<open>TypeError\<close>, and when the keys are exactly the declared fields the
  record is built from the values of the object.
\<close>

theorem flat_record_needs_exact_keys:
  assumes "respond wb (prepared c ''GET'' ''/account/balance'' NoKwargs) = Returns rb"
    and "response_ok rb" and "status_code rb \<noteq> 204"
    and "json_result rb = Inr (JObj bkvs)"
    and "respond wc (prepared c ''GET'' (''/currency/'' @ upper symb) NoKwargs) = Returns rc"
    and "response_ok rc" and "status_code rc \<noteq> 204"
    and "json_result rc = Inr (JObj ckvs)"
  shows "(\<not> set (map fst bkvs) \<subseteq> set Balance_params \<longrightarrow>
            fst (get_balance c wb) = Inl TypeError)
       \<and> (\<not> set Balance_params \<subseteq> set (map fst bkvs) \<longrightarrow>
            fst (get_balance c wb) = Inl TypeError)
       \<and> (set (map fst bkvs) = set Balance_params \<longrightarrow>
            (\<exists>b. fst (get_balance c wb) = Inr b
               \<and> map_of bkvs ''currencies'' = Some (currencies b)
               \<and> map_of bkvs ''stocks'' = Some (stocks b)))
       \<and> (\<not> set (map fst ckvs) \<subseteq> set CurrencyInfo_params \<longrightarrow>
            fst (get_currency_info c symb wc) = Inl TypeError)
       \<and> (\<not> set CurrencyInfo_params \<subseteq> set (map fst ckvs) \<longrightarrow>
            fst (get_currency_info c symb wc) = Inl TypeError)
       \<and> (set (map fst ckvs) = set CurrencyInfo_params \<longrightarrow>
            (\<exists>info. fst (get_currency_info c symb wc) = Inr info))"
proof -
  have b: "fst (get_balance c wb) = Balance_init (JObj bkvs)"
    using assms(1-4) by (simp add: get_balance_fst private_request_success bind_exn_Inr)
  have c: "fst (get_currency_info c symb wc) = CurrencyInfo_init (JObj ckvs)"
    using assms(5-8) by (simp add: get_currency_info_fst private_request_success bind_exn_Inr)
  have "set (map fst ckvs) = set CurrencyInfo_params \<longrightarrow>
          (\<exists>info. CurrencyInfo_init (JObj ckvs) = Inr info)"
    using CurrencyInfo_init_exact [of ckvs] by blast
  then show ?thesis
    unfolding b c
    using Balance_init_extra [of bkvs] Balance_init_missing [of bkvs]
      Balance_init_exact [of bkvs] CurrencyInfo_init_extra [of ckvs]
      CurrencyInfo_init_missing [of ckvs]
    by blast
qed

theorem flat_record_needs_exact_keys_witness:
  "(\<exists>b. fst (get_balance example_client
            (answering (Returns \<lparr>status_code = 200,
               text' = ''{\"currencies\": {\"USD\": 100}, \"stocks\": {\"ACME\": 5}}'',
               json_result = Inr (JObj [(''currencies'', JObj [(''USD'', JInt 100)]),
                                        (''stocks'', JObj [(''ACME'', JInt 5)])])\<rparr>))) = Inr b
        \<and> currencies b = JObj [(''USD'', JInt 100)]
        \<and> stocks b = JObj [(''ACME'', JInt 5)])
   \<and> fst (get_currency_info example_client ''usd''
            (answering (Returns \<lparr>status_code = 200,
               text' = ''{\"id\": 1, \"symbol\": \"USD\"}'',
               json_result = Inr (JObj [(''id'', JInt 1), (''symbol'', JStr ''USD'')])\<rparr>)))
       = Inl TypeError"
proof -
  let ?bkvs = "[(''currencies'', JObj [(''USD'', JInt 100)]), (''stocks'', JObj [(''ACME'', JInt 5)])]"
  let ?rb = "\<lparr>status_code = 200,
              text' = ''{\"currencies\": {\"USD\": 100}, \"stocks\": {\"ACME\": 5}}'',
              json_result = Inr (JObj ?bkvs)\<rparr>"
  let ?ckvs = "[(''id'', JInt 1), (''symbol'', JStr ''USD'')]"
  let ?rc = "\<lparr>status_code = 200, text' = ''{\"id\": 1, \"symbol\": \"USD\"}'',
              json_result = Inr (JObj ?ckvs)\<rparr>"
  have b: "respond (answering (Returns ?rb))
             (prepared example_client ''GET'' ''/account/balance'' NoKwargs) = Returns ?rb"
    "response_ok ?rb" "status_code ?rb \<noteq> 204" "json_result ?rb = Inr (JObj ?bkvs)"
    by (simp_all add: answering_respond response_ok_def)
  have c: "respond (answering (Returns ?rc))
             (prepared example_client ''GET'' (''/currency/'' @ upper ''usd'') NoKwargs) = Returns ?rc"
    "response_ok ?rc" "status_code ?rc \<noteq> 204" "json_result ?rc = Inr (JObj ?ckvs)"
    by (simp_all add: answering_respond response_ok_def)
  have d: "set (map fst ?bkvs) = set Balance_params"
    by (simp add: Balance_params_def insert_commute)
  have e: "\<not> set CurrencyInfo_params \<subseteq> set (map fst ?ckvs)"
    by (simp add: CurrencyInfo_params_def)
  note inst = flat_record_needs_exact_keys [OF b c]
  from inst d obtain bal where
    "fst (get_balance example_client (answering (Returns ?rb))) = Inr bal"
    "map_of ?bkvs ''currencies'' = Some (currencies bal)"
    "map_of ?bkvs ''stocks'' = Some (stocks bal)"
    by blast
  then have "\<exists>b. fst (get_balance example_client (answering (Returns ?rb))) = Inr b
      \<and> currencies b = JObj [(''USD'', JInt 100)] \<and> stocks b = JObj [(''ACME'', JInt 5)]"
    by (intro exI [of _ bal]) simp
  moreover from inst e
  have "fst (get_currency_info example_client ''usd'' (answering (Returns ?rc))) = Inl TypeError"
    by blast
  ultimately show ?thesis
    by blast
qed

text \<open>
  Claim C4 as stated fails in its first half: an object that has both fields of
  \<open>Balance\<close> and one more key is rejected, not mapped with the extra key ignored.
\<close>

theorem extra_field_rejected_counterexample:
  "fst (get_balance example_client
          (answering (Returns \<lparr>status_code = 200,
             text' = ''{\"currencies\": {\"USD\": 100}, \"stocks\": {\"ACME\": 5}, \"updated_at\": 1700000000}'',
             json_result = Inr (JObj [(''currencies'', JObj [(''USD'', JInt 100)]),
                                      (''stocks'', JObj [(''ACME'', JInt 5)]),
                                      (''updated_at'', JInt 1700000000)])\<rparr>)))
     = Inl TypeError"
  by (simp add: get_balance_fst private_request_fst answering_respond try_body_def
        response_ok_def except_RequestException_def bind_exn_def Balance_init_def
        kwargs_of_def unexpected_keyword_def Balance_params_def)

section \<open>The order book\<close>

lemma map_exn_Inr_iff: "map_exn f xs = Inr ys \<longleftrightarrow> map f xs = map Inr ys"
proof (induction xs arbitrary: ys)
  case Nil
  then show ?case by auto
next
  case (Cons x xs)
  show ?case
  proof (cases "f x")
    case (Inl e)
    then show ?thesis by (cases ys) auto
  next
    case (Inr y)
    show ?thesis
    proof (cases "map_exn f xs")
      case (Inl e)
      with Inr Cons.IH show ?thesis
        by (cases ys) auto
    next
      case inner: (Inr zs)
      with Inr Cons.IH [of zs] Cons.IH show ?thesis
        by (cases ys) auto
    qed
  qed
qed

lemma map_exn_nth:
  assumes "map_exn f xs = Inr ys"
  shows "length ys = length xs \<and> (\<forall>i<length xs. f (xs ! i) = Inr (ys ! i))"
proof -
  from assms have eq: "map f xs = map Inr ys"
    by (simp add: map_exn_Inr_iff)
  then have len: "length ys = length xs"
    by (metis length_map)
  have "f (xs ! i) = Inr (ys ! i)" if "i < length xs" for i
  proof -
    have "f (xs ! i) = map f xs ! i"
      using that by simp
    also have "\<dots> = map Inr ys ! i"
      by (simp only: eq)
    also have "\<dots> = Inr (ys ! i)"
      using that len by simp
    finally show ?thesis .
  qed
  with len show ?thesis by blast
qed

lemma map_exn_total:
  assumes "\<forall>x\<in>set xs. \<exists>y. f x = Inr y"
  shows "\<exists>ys. map_exn f xs = Inr ys"
  using assms by (induction xs) auto

lemma OrderbookEntry_init_fields:
  assumes "OrderbookEntry_init e = Inr oe"
  shows "getitem e ''price'' = Inr (price oe) \<and> getitem e ''amount'' = Inr (amount oe)"
  using assms
  by (cases e)
     (auto simp add: OrderbookEntry_init_def kwargs_of_def bind_exn_def getitem_def
        required_arg_def split: if_splits option.splits)

lemma OrderbookEntry_init_exact:
  assumes "set (map fst ekvs) = set OrderbookEntry_params"
  shows "\<exists>oe. OrderbookEntry_init (JObj ekvs) = Inr oe"
proof -
  have no_extra: "\<not> unexpected_keyword OrderbookEntry_params ekvs"
    using assms by (simp add: unexpected_keyword_iff)
  have "\<exists>v. map_of ekvs k = Some v" if "k \<in> set OrderbookEntry_params" for k
    using that assms by (intro key_has_value) simp
  then obtain a1 a2 where "map_of ekvs ''price'' = Some a1" "map_of ekvs ''amount'' = Some a2"
    unfolding OrderbookEntry_params_def by (meson list.set_intros)
  with no_extra show ?thesis
    by (simp add: OrderbookEntry_init_def kwargs_of_def bind_exn_Inr required_arg_present)
qed

lemma hydrate_orderbook_array:
  assumes "map_of kvs ''orders'' = Some (JArr es)"
  shows "hydrate_orderbook (JObj kvs) =
           bind_exn (map_exn OrderbookEntry_init es) (Orderbook_init kvs)"
  using assms
  by (simp add: hydrate_orderbook_def getitem_def py_iter_def kwargs_of_def bind_exn_def
        split: sum.splits)

lemma Orderbook_init_orders:
  assumes "Orderbook_init kvs entries = Inr ob"
  shows "orders ob = entries"
  using assms
  by (auto simp add: Orderbook_init_def bind_exn_def split: if_splits sum.splits)

lemma Orderbook_init_exact:
  assumes "set (map fst kvs) = set Orderbook_params"
  shows "\<exists>ob. Orderbook_init kvs entries = Inr ob
           \<and> map_of kvs ''stock_symbol'' = Some (stock_symbol ob)"
proof -
  have no_extra: "\<not> unexpected_keyword Orderbook_params kvs"
    using assms by (simp add: unexpected_keyword_iff)
  have "\<exists>v. map_of kvs ''stock_symbol'' = Some v"
    using assms by (intro key_has_value) (simp add: Orderbook_params_def)
  then obtain a1 where "map_of kvs ''stock_symbol'' = Some a1" ..
  with no_extra show ?thesis
    by (simp add: Orderbook_init_def bind_exn_Inr required_arg_present)
qed

lemma get_stock_orderbook_fst:
  "fst (get_stock_orderbook c symb w) =
     bind_exn (fst (private_request c ''GET'' (''/stock/'' @ upper symb @ ''/orderbook'') NoKwargs w))
       hydrate_orderbook"
  by (simp add: get_stock_orderbook_def case_prod_beta)

text \<open>
  Claim C7. On a success response whose body decodes to an object with an array under
  \<^verbatim>\<open>orders\<close>: whenever \<^verbatim>\<open>get_stock_orderbook\<close> returns, the orders of the result are
  as many as the elements of the array, and the entry at each position is the hydration
  of the element at the same position, with that element's price and amount: nothing is
  dropped, nothing is moved. The operation does return when the object has exactly the
  keys \<^verbatim>\<open>stock_symbol\<close> and \<^verbatim>\<open>orders\<close> and every element is an object with exactly
  the keys \<^verbatim>\<open>price\<close> and \<^verbatim>\<open>amount\<close>.
\<close>

theorem orderbook_preserves_source_order:
  assumes "respond w (prepared c ''GET'' (''/stock/'' @ upper symb @ ''/orderbook'') NoKwargs)
             = Returns r"
    and "response_ok r" and "status_code r \<noteq> 204"
    and "json_result r = Inr (JObj kvs)"
    and "map_of kvs ''orders'' = Some (JArr es)"
  shows "(\<forall>ob. fst (get_stock_orderbook c symb w) = Inr ob \<longrightarrow>
            length (orders ob) = length es
          \<and> (\<forall>i<length es.
                OrderbookEntry_init (es ! i) = Inr (orders ob ! i)
              \<and> getitem (es ! i) ''price'' = Inr (price (orders ob ! i))
              \<and> getitem (es ! i) ''amount'' = Inr (amount (orders ob ! i))))
       \<and> (set (map fst kvs) = set Orderbook_params
          \<and> (\<forall>e\<in>set es. \<exists>ekvs. e = JObj ekvs \<and> set (map fst ekvs) = set OrderbookEntry_params)
          \<longrightarrow> (\<exists>ob. fst (get_stock_orderbook c symb w) = Inr ob
                 \<and> map_of kvs ''stock_symbol'' = Some (stock_symbol ob)))"
proof -
  have run: "fst (get_stock_orderbook c symb w) =
               bind_exn (map_exn OrderbookEntry_init es) (Orderbook_init kvs)"
    using assms
    by (simp add: get_stock_orderbook_fst private_request_success bind_exn_Inr
          hydrate_orderbook_array)
  have order: "length (orders ob) = length es
          \<and> (\<forall>i<length es.
                OrderbookEntry_init (es ! i) = Inr (orders ob ! i)
              \<and> getitem (es ! i) ''price'' = Inr (price (orders ob ! i))
              \<and> getitem (es ! i) ''amount'' = Inr (amount (orders ob ! i)))"
    if res: "fst (get_stock_orderbook c symb w) = Inr ob" for ob
  proof -
    from res run obtain entries where
      entries: "map_exn OrderbookEntry_init es = Inr entries"
      and ob: "Orderbook_init kvs entries = Inr ob"
      by (cases "map_exn OrderbookEntry_init es") (simp_all add: bind_exn_def)
    from ob have same: "orders ob = entries"
      by (rule Orderbook_init_orders)
    from map_exn_nth [OF entries]
    have len: "length entries = length es"
      and nth: "\<forall>i<length es. OrderbookEntry_init (es ! i) = Inr (entries ! i)"
      by simp_all
    have "OrderbookEntry_init (es ! i) = Inr (orders ob ! i)
          \<and> getitem (es ! i) ''price'' = Inr (price (orders ob ! i))
          \<and> getitem (es ! i) ''amount'' = Inr (amount (orders ob ! i))"
      if "i < length es" for i
    proof -
      from that nth same have init: "OrderbookEntry_init (es ! i) = Inr (orders ob ! i)"
        by simp
      with OrderbookEntry_init_fields [OF init] show ?thesis
        by simp
    qed
    with len same show ?thesis
      by simp
  qed
  have total: "\<exists>ob. fst (get_stock_orderbook c symb w) = Inr ob
                 \<and> map_of kvs ''stock_symbol'' = Some (stock_symbol ob)"
    if wf: "set (map fst kvs) = set Orderbook_params
      \<and> (\<forall>e\<in>set es. \<exists>ekvs. e = JObj ekvs \<and> set (map fst ekvs) = set OrderbookEntry_params)"
  proof -
    from wf have keys: "set (map fst kvs) = set Orderbook_params"
      and shape: "\<forall>e\<in>set es. \<exists>ekvs. e = JObj ekvs \<and> set (map fst ekvs) = set OrderbookEntry_params"
      by simp_all
    have "\<forall>e\<in>set es. \<exists>oe. OrderbookEntry_init e = Inr oe"
    proof
      fix e
      assume "e \<in> set es"
      with shape obtain ekvs where "e = JObj ekvs"
        "set (map fst ekvs) = set OrderbookEntry_params"
        by blast
      then show "\<exists>oe. OrderbookEntry_init e = Inr oe"
        using OrderbookEntry_init_exact [of ekvs] by simp
    qed
    then obtain entries where "map_exn OrderbookEntry_init es = Inr entries"
      using map_exn_total [of es OrderbookEntry_init] by blast
    with run Orderbook_init_exact [OF keys, of entries] show ?thesis
      by (simp add: bind_exn_Inr)
  qed
  show ?thesis
  proof (rule conjI)
    show "\<forall>ob. fst (get_stock_orderbook c symb w) = Inr ob \<longrightarrow>
            length (orders ob) = length es
          \<and> (\<forall>i<length es.
                OrderbookEntry_init (es ! i) = Inr (orders ob ! i)
              \<and> getitem (es ! i) ''price'' = Inr (price (orders ob ! i))
              \<and> getitem (es ! i) ''amount'' = Inr (amount (orders ob ! i)))"
    proof (rule allI, rule impI)
      fix ob
      assume "fst (get_stock_orderbook c symb w) = Inr ob"
      then show "length (orders ob) = length es
          \<and> (\<forall>i<length es.
                OrderbookEntry_init (es ! i) = Inr (orders ob ! i)
              \<and> getitem (es ! i) ''price'' = Inr (price (orders ob ! i))
              \<and> getitem (es ! i) ''amount'' = Inr (amount (orders ob ! i)))"
        by (rule order)
    qed
  next
    show "set (map fst kvs) = set Orderbook_params
          \<and> (\<forall>e\<in>set es. \<exists>ekvs. e = JObj ekvs \<and> set (map fst ekvs) = set OrderbookEntry_params)
          \<longrightarrow> (\<exists>ob. fst (get_stock_orderbook c symb w) = Inr ob
                 \<and> map_of kvs ''stock_symbol'' = Some (stock_symbol ob))"
      by (rule impI) (rule total)
  qed
qed

theorem orderbook_preserves_source_order_witness:
  "\<exists>ob. fst (get_stock_orderbook example_client ''acme''
            (answering (Returns \<lparr>status_code = 200,
               text' = ''{\"stock_symbol\":\"ACME\",\"orders\":[{\"price\":10,\"amount\":3},{\"price\":11,\"amount\":1}]}'',
               json_result = Inr (JObj [(''stock_symbol'', JStr ''ACME''),
                 (''orders'', JArr [JObj [(''price'', JInt 10), (''amount'', JInt 3)],
                                    JObj [(''price'', JInt 11), (''amount'', JInt 1)]])])\<rparr>)))
           = Inr ob
      \<and> stock_symbol ob = JStr ''ACME''
      \<and> length (orders ob) = 2
      \<and> price (orders ob ! 0) = JInt 10 \<and> amount (orders ob ! 0) = JInt 3
      \<and> price (orders ob ! 1) = JInt 11 \<and> amount (orders ob ! 1) = JInt 1"
proof -
  let ?es = "[JObj [(''price'', JInt 10), (''amount'', JInt 3)],
              JObj [(''price'', JInt 11), (''amount'', JInt 1)]]"
  let ?kvs = "[(''stock_symbol'', JStr ''ACME''), (''orders'', JArr ?es)]"
  let ?r = "\<lparr>status_code = 200,
             text' = ''{\"stock_symbol\":\"ACME\",\"orders\":[{\"price\":10,\"amount\":3},{\"price\":11,\"amount\":1}]}'',
             json_result = Inr (JObj ?kvs)\<rparr>"
  let ?res = "fst (get_stock_orderbook example_client ''acme'' (answering (Returns ?r)))"
  have a: "respond (answering (Returns ?r))
             (prepared example_client ''GET'' (''/stock/'' @ upper ''acme'' @ ''/orderbook'') NoKwargs)
           = Returns ?r"
    by (rule answering_respond)
  have b: "response_ok ?r" "status_code ?r \<noteq> 204" "json_result ?r = Inr (JObj ?kvs)"
    "map_of ?kvs ''orders'' = Some (JArr ?es)"
    by (simp_all add: response_ok_def)
  note inst = orderbook_preserves_source_order [OF a b]
  have keys: "set (map fst ?kvs) = set Orderbook_params"
    by (simp add: Orderbook_params_def)
  have shape: "\<forall>e\<in>set ?es. \<exists>ekvs. e = JObj ekvs \<and> set (map fst ekvs) = set OrderbookEntry_params"
    by (simp add: OrderbookEntry_params_def)
  from inst have total: "set (map fst ?kvs) = set Orderbook_params
      \<and> (\<forall>e\<in>set ?es. \<exists>ekvs. e = JObj ekvs \<and> set (map fst ekvs) = set OrderbookEntry_params)
      \<longrightarrow> (\<exists>ob. ?res = Inr ob \<and> map_of ?kvs ''stock_symbol'' = Some (stock_symbol ob))"
    by (rule conjunct2)
  from total keys shape obtain ob where ob: "?res = Inr ob"
    and sym: "map_of ?kvs ''stock_symbol'' = Some (stock_symbol ob)"
    by blast
  from inst have "\<forall>ob. ?res = Inr ob \<longrightarrow>
            length (orders ob) = length ?es
          \<and> (\<forall>i<length ?es.
                OrderbookEntry_init (?es ! i) = Inr (orders ob ! i)
              \<and> getitem (?es ! i) ''price'' = Inr (price (orders ob ! i))
              \<and> getitem (?es ! i) ''amount'' = Inr (amount (orders ob ! i)))"
    by (rule conjunct1)
  with ob have len: "length (orders ob) = length ?es"
    and nth: "\<forall>i<length ?es.
                OrderbookEntry_init (?es ! i) = Inr (orders ob ! i)
              \<and> getitem (?es ! i) ''price'' = Inr (price (orders ob ! i))
              \<and> getitem (?es ! i) ''amount'' = Inr (amount (orders ob ! i))"
    by blast+
  have "(0::nat) < length ?es" "(1::nat) < length ?es"
    by simp_all
  with nth have "getitem (?es ! 0) ''price'' = Inr (price (orders ob ! 0))"
    "getitem (?es ! 0) ''amount'' = Inr (amount (orders ob ! 0))"
    "getitem (?es ! 1) ''price'' = Inr (price (orders ob ! 1))"
    "getitem (?es ! 1) ''amount'' = Inr (amount (orders ob ! 1))"
    by blast+
  then have "price (orders ob ! 0) = JInt 10" "amount (orders ob ! 0) = JInt 3"
    "price (orders ob ! 1) = JInt 11" "amount (orders ob ! 1) = JInt 1"
    by (simp_all add: getitem_def)
  with ob sym len show ?thesis
    by (intro exI [of _ ob]) simp
qed

section \<open>Facts about the version check\<close>

lemma split_first: "\<exists>ps. split sep s = takeWhile (\<lambda>ch. ch \<noteq> sep) s # ps"
  by (induction s) auto

lemma index0_split: "index0 (split sep s) = Inr (takeWhile (\<lambda>ch. ch \<noteq> sep) s)"
proof -
  from split_first [of sep s] obtain ps where "split sep s = takeWhile (\<lambda>ch. ch \<noteq> sep) s # ps" ..
  then show ?thesis by (simp add: index0_def)
qed

lemma get_version_fst:
  "fst (get_version c w) =
     bind_exn (fst (private_request c ''GET'' ''/version'' NoKwargs w)) SuccessResponse_init"
  by (simp add: get_version_def case_prod_beta)

lemma get_version_snd:
  "snd (get_version c w) = snd (private_request c ''GET'' ''/version'' NoKwargs w)"
  by (simp add: get_version_def case_prod_beta)

lemma get_version_stdout: "stdout (snd (get_version c w)) = stdout w"
  by (simp add: get_version_snd private_request_snd)

lemma compare_majors_str:
  "compare_majors (JStr s) w =
     (Inr (),
      if takeWhile (\<lambda>ch. ch \<noteq> CHR ''.'') CLIENT_VERSION = takeWhile (\<lambda>ch. ch \<noteq> CHR ''.'') s
      then w else print (MajorMismatch CLIENT_VERSION (JStr s)) w)"
  by (simp add: compare_majors_def major_of_def index0_split)

lemma private_check_version_str:
  assumes "fst (get_version c w) = Inr resp"
    and "details resp = JObj dkvs" and "map_of dkvs ''version'' = Some (JStr s)" and "s \<noteq> []"
  shows "private_check_version c w = compare_majors (JStr s) (snd (get_version c w))"
  using assms
  by (simp add: private_check_version_def case_prod_beta py_get_def)

lemma RapidWireClient_init_unfold:
  assumes "api_key \<noteq> []"
  shows "RapidWireClient_init api_key base w =
     (let c = \<lparr>base_url = rstrip CHR ''/'' base,
               session_headers = [(''API-Key'', api_key), (''Content-Type'', ''application/json'')]\<rparr>
      in case fst (private_check_version c w) of
           Inl e \<Rightarrow> (Inl e, snd (private_check_version c w))
         | Inr u \<Rightarrow> (Inr c, snd (private_check_version c w)))"
  using assms by (simp add: RapidWireClient_init_def case_prod_beta Let_def)

lemma get_version_answering:
  assumes "json_result r = Inr (JObj [(''message'', m), (''details'', d)])"
    and "response_ok r" and "status_code r \<noteq> 204"
  shows "fst (get_version c (answering (Returns r))) = Inr \<lparr>message = m, details = d\<rparr>"
  using assms
  by (simp add: get_version_fst private_request_success answering_respond bind_exn_Inr
        SuccessResponse_init_def kwargs_of_def unexpected_keyword_def
        SuccessResponse_params_def required_arg_def optional_arg_def)

subsection \<open>Comparison of the major versions\<close>

text \<open>
  Claim C8. When \<^verbatim>\<open>get_version\<close> returns and the details hold a non-empty version
  string, the check compares the part of \<^verbatim>\<open>CLIENT_VERSION\<close> before its first dot with
  the part of the server's string before its first dot. When they differ, exactly one
  warning is printed, and it carries both version strings in full; when they are equal,
  nothing is printed. In both cases the check returns normally and the constructor
  returns the same client.
\<close>

theorem major_version_comparison:
  assumes "api_key \<noteq> []"
    and "c = \<lparr>base_url = rstrip CHR ''/'' base,
               session_headers = [(''API-Key'', api_key), (''Content-Type'', ''application/json'')]\<rparr>"
    and "fst (get_version c w) = Inr resp"
    and "details resp = JObj dkvs" and "map_of dkvs ''version'' = Some (JStr s)" and "s \<noteq> []"
  shows "fst (private_check_version c w) = Inr ()
       \<and> fst (RapidWireClient_init api_key base w) = Inr c
       \<and> stdout (snd (RapidWireClient_init api_key base w)) =
           stdout w @
             (if takeWhile (\<lambda>ch. ch \<noteq> CHR ''.'') CLIENT_VERSION = takeWhile (\<lambda>ch. ch \<noteq> CHR ''.'') s
              then [] else [MajorMismatch CLIENT_VERSION (JStr s)])"
proof -
  have chk: "private_check_version c w = compare_majors (JStr s) (snd (get_version c w))"
    using assms(3-6) by (rule private_check_version_str)
  then have ok: "fst (private_check_version c w) = Inr ()"
    by (simp add: compare_majors_str)
  have out: "stdout (snd (private_check_version c w)) =
           stdout w @
             (if takeWhile (\<lambda>ch. ch \<noteq> CHR ''.'') CLIENT_VERSION = takeWhile (\<lambda>ch. ch \<noteq> CHR ''.'') s
              then [] else [MajorMismatch CLIENT_VERSION (JStr s)])"
    by (simp add: chk compare_majors_str print_def get_version_stdout)
  have init: "RapidWireClient_init api_key base w = (Inr c, snd (private_check_version c w))"
    using ok assms(1) by (simp add: RapidWireClient_init_unfold assms(2) [symmetric])
  from ok out show ?thesis
    by (simp add: init)
qed


theorem major_version_comparison_witness:
  "fst (RapidWireClient_init ''secret'' ''http://127.0.0.1:14550/''
          (answering (Returns \<lparr>status_code = 200,
             text' = ''{\"message\": \"RapidWire API\", \"details\": {\"version\": \"2.3.1\"}}'',
             json_result = Inr (JObj [(''message'', JStr ''RapidWire API''),
                                      (''details'', JObj [(''version'', JStr ''2.3.1'')])])\<rparr>)))
     = Inr \<lparr>base_url = ''http://127.0.0.1:14550'',
            session_headers = [(''API-Key'', ''secret''), (''Content-Type'', ''application/json'')]\<rparr>
   \<and> stdout (snd (RapidWireClient_init ''secret'' ''http://127.0.0.1:14550/''
          (answering (Returns \<lparr>status_code = 200,
             text' = ''{\"message\": \"RapidWire API\", \"details\": {\"version\": \"2.3.1\"}}'',
             json_result = Inr (JObj [(''message'', JStr ''RapidWire API''),
                                      (''details'', JObj [(''version'', JStr ''2.3.1'')])])\<rparr>))))
     = [MajorMismatch ''1.0.0'' (JStr ''2.3.1'')]
   \<and> fst (RapidWireClient_init ''secret'' ''http://127.0.0.1:14550/''
          (answering (Returns \<lparr>status_code = 200,
             text' = ''{\"message\": \"RapidWire API\", \"details\": {\"version\": \"1.4.2\"}}'',
             json_result = Inr (JObj [(''message'', JStr ''RapidWire API''),
                                      (''details'', JObj [(''version'', JStr ''1.4.2'')])])\<rparr>)))
     = Inr \<lparr>base_url = ''http://127.0.0.1:14550'',
            session_headers = [(''API-Key'', ''secret''), (''Content-Type'', ''application/json'')]\<rparr>
   \<and> stdout (snd (RapidWireClient_init ''secret'' ''http://127.0.0.1:14550/''
          (answering (Returns \<lparr>status_code = 200,
             text' = ''{\"message\": \"RapidWire API\", \"details\": {\"version\": \"1.4.2\"}}'',
             json_result = Inr (JObj [(''message'', JStr ''RapidWire API''),
                                      (''details'', JObj [(''version'', JStr ''1.4.2'')])])\<rparr>))))
     = []"
proof -
  let ?c = "\<lparr>base_url = rstrip CHR ''/'' ''http://127.0.0.1:14550/'',
             session_headers = [(''API-Key'', ''secret''), (''Content-Type'', ''application/json'')]\<rparr>"
  let ?r2 = "\<lparr>status_code = 200,
             text' = ''{\"message\": \"RapidWire API\", \"details\": {\"version\": \"2.3.1\"}}'',
             json_result = Inr (JObj [(''message'', JStr ''RapidWire API''),
                                      (''details'', JObj [(''version'', JStr ''2.3.1'')])])\<rparr>"
  let ?r1 = "\<lparr>status_code = 200,
             text' = ''{\"message\": \"RapidWire API\", \"details\": {\"version\": \"1.4.2\"}}'',
             json_result = Inr (JObj [(''message'', JStr ''RapidWire API''),
                                      (''details'', JObj [(''version'', JStr ''1.4.2'')])])\<rparr>"
  have key: "''secret'' \<noteq> []" by simp
  have v2: "fst (get_version ?c (answering (Returns ?r2)))
              = Inr \<lparr>message = JStr ''RapidWire API'', details = JObj [(''version'', JStr ''2.3.1'')]\<rparr>"
    by (rule get_version_answering) (simp_all add: response_ok_def)
  have v1: "fst (get_version ?c (answering (Returns ?r1)))
              = Inr \<lparr>message = JStr ''RapidWire API'', details = JObj [(''version'', JStr ''1.4.2'')]\<rparr>"
    by (rule get_version_answering) (simp_all add: response_ok_def)
  have c: "?c = \<lparr>base_url = ''http://127.0.0.1:14550'',
             session_headers = [(''API-Key'', ''secret''), (''Content-Type'', ''application/json'')]\<rparr>"
    by (simp add: rstrip_def)
  have "fst (RapidWireClient_init ''secret'' ''http://127.0.0.1:14550/'' (answering (Returns ?r2))) = Inr ?c
    \<and> stdout (snd (RapidWireClient_init ''secret'' ''http://127.0.0.1:14550/'' (answering (Returns ?r2))))
        = [MajorMismatch ''1.0.0'' (JStr ''2.3.1'')]"
    using major_version_comparison [OF key refl v2, of "[(''version'', JStr ''2.3.1'')]" "''2.3.1''"]
    by (simp add: CLIENT_VERSION_def answering_def)
  moreover
  have "fst (RapidWireClient_init ''secret'' ''http://127.0.0.1:14550/'' (answering (Returns ?r1))) = Inr ?c
    \<and> stdout (snd (RapidWireClient_init ''secret'' ''http://127.0.0.1:14550/'' (answering (Returns ?r1))))
        = []"
    using major_version_comparison [OF key refl v1, of "[(''version'', JStr ''1.4.2'')]" "''1.4.2''"]
    by (simp add: CLIENT_VERSION_def answering_def)
  ultimately show ?thesis
    by (simp only: c)
qed

subsection \<open>A version response without details\<close>

text \<open>
  An error that \<^verbatim>\<open>_request\<close> has normalized is caught by the check: the constructor
  returns the client and one warning is printed.
\<close>

lemma version_call_failure_is_not_fatal:
  assumes "api_key \<noteq> []"
    and "c = \<lparr>base_url = rstrip CHR ''/'' base,
               session_headers = [(''API-Key'', api_key), (''Content-Type'', ''application/json'')]\<rparr>"
    and "fst (get_version c w) = Inl (RapidWireAPIError sc d)"
  shows "fst (RapidWireClient_init api_key base w) = Inr c
       \<and> stdout (snd (RapidWireClient_init api_key base w)) =
           stdout w @ [ConnectFailed (RapidWireAPIError sc d)]"
proof -
  have "private_check_version c w =
          (Inr (), print (ConnectFailed (RapidWireAPIError sc d)) (snd (get_version c w)))"
    using assms(3) by (simp add: private_check_version_def case_prod_beta)
  then show ?thesis
    using assms(1)
    by (simp add: RapidWireClient_init_unfold assms(2) [symmetric] print_def get_version_stdout)
qed


text \<open>
  Claim C2 says that the constructor completes for every outcome of the version call.
  The code at the response \<^verbatim>\<open>{"message": "RapidWire API"}\<close> with status 200: the call
  succeeds, \<^verbatim>\<open>details\<close> takes its declared default \<^verbatim>\<open>None\<close>, line 139 calls
  \<^verbatim>\<open>.get\<close> on it, and the \<^verbatim>\<open>AttributeError\<close> is not a \<open>RapidWireAPIError\<close>, so it
  leaves \<^verbatim>\<open>_check_version\<close> and the constructor.
\<close>

theorem version_check_raises_without_details:
  "fst (RapidWireClient_init ''secret'' ''http://127.0.0.1:14550''
          (answering (Returns \<lparr>status_code = 200,
             text' = ''{\"message\": \"RapidWire API\"}'',
             json_result = Inr (JObj [(''message'', JStr ''RapidWire API'')])\<rparr>)))
     = Inl AttributeError"
proof -
  let ?r = "\<lparr>status_code = 200, text' = ''{\"message\": \"RapidWire API\"}'',
             json_result = Inr (JObj [(''message'', JStr ''RapidWire API'')])\<rparr>"
  have "fst (get_version c (answering (Returns ?r)))
          = Inr \<lparr>message = JStr ''RapidWire API'', details = JNull\<rparr>" for c
    by (simp add: get_version_fst private_request_fst answering_respond try_body_def
          response_ok_def except_RequestException_def bind_exn_def
          SuccessResponse_init_def kwargs_of_def unexpected_keyword_def
          SuccessResponse_params_def required_arg_def optional_arg_def)
  then have "fst (private_check_version c (answering (Returns ?r))) = Inl AttributeError" for c
    by (simp add: private_check_version_def case_prod_beta py_get_def)
  then show ?thesis
    by (simp add: RapidWireClient_init_unfold)
qed

section \<open>Normalization of symbols\<close>

lemma char_upper_idem: "char_upper (char_upper c) = char_upper c"
proof (cases "97 \<le> (of_char c :: nat) \<and> (of_char c :: nat) \<le> 122")
  case True
  let ?m = "of_char c - 32 :: nat"
  from True have "?m < 256" by arith
  then have roundtrip: "(of_char (char_of ?m) :: nat) = ?m"
    by simp
  from True have outside: "\<not> (97 \<le> ?m \<and> ?m \<le> 122)" by arith
  have fixed: "char_upper (char_of ?m) = char_of ?m"
    by (simp only: char_upper_def Let_def roundtrip outside simp_thms if_False)
  from True have "char_upper c = char_of ?m"
    by (simp only: char_upper_def Let_def simp_thms if_True)
  with fixed show ?thesis
    by (simp only:)
next
  case False
  then have "char_upper c = c"
    by (simp only: char_upper_def Let_def simp_thms if_False)
  then show ?thesis
    by (simp only:)
qed

lemma char_upper_letters:
  "map char_upper ''abcdefghijklmnopqrstuvwxyz'' = ''ABCDEFGHIJKLMNOPQRSTUVWXYZ''"
  by code_simp

lemma upper_idem: "upper (upper s) = upper s"
  by (simp add: upper_def char_upper_idem)

lemma sent_get_currency_info:
  "sent (snd (get_currency_info c s w)) =
     sent w @ [\<lparr>method' = ''GET'', url = base_url c @ ''/currency/'' @ upper s,
                headers = session_headers c, kwargs = NoKwargs\<rparr>]"
  by (simp add: get_currency_info_def case_prod_beta private_request_snd prepared_def)

lemma sent_get_stock_info:
  "sent (snd (get_stock_info c s w)) =
     sent w @ [\<lparr>method' = ''GET'', url = base_url c @ ''/stock/'' @ upper s,
                headers = session_headers c, kwargs = NoKwargs\<rparr>]"
  by (simp add: get_stock_info_def case_prod_beta private_request_snd prepared_def)

lemma sent_get_stock_orderbook:
  "sent (snd (get_stock_orderbook c s w)) =
     sent w @ [\<lparr>method' = ''GET'', url = base_url c @ ''/stock/'' @ upper s @ ''/orderbook'',
                headers = session_headers c, kwargs = NoKwargs\<rparr>]"
  by (simp add: get_stock_orderbook_def case_prod_beta private_request_snd prepared_def)

lemma sent_get_liquidity_info:
  "sent (snd (get_liquidity_info c s w)) =
     sent w @ [\<lparr>method' = ''GET'', url = base_url c @ ''/market/currency/liquidity/'' @ upper s,
                headers = session_headers c, kwargs = NoKwargs\<rparr>]"
  by (simp add: get_liquidity_info_def case_prod_beta private_request_snd prepared_def)

lemma sent_transfer_currency:
  "sent (snd (transfer_currency c rid s amt w)) =
     sent w @ [\<lparr>method' = ''POST'', url = base_url c @ ''/currency/transfer'',
                headers = session_headers c,
                kwargs = Json (JObj [(''recipient_id'', JInt rid),
                                     (''asset_symbol'', JStr (upper s)),
                                     (''amount'', JInt amt)])\<rparr>]"
  by (simp add: transfer_currency_def transfer_payload_def case_prod_beta Let_def
        private_request_snd prepared_def)

lemma sent_transfer_stock:
  "sent (snd (transfer_stock c rid s amt w)) =
     sent w @ [\<lparr>method' = ''POST'', url = base_url c @ ''/stock/transfer'',
                headers = session_headers c,
                kwargs = Json (JObj [(''recipient_id'', JInt rid),
                                     (''asset_symbol'', JStr (upper s)),
                                     (''amount'', JInt amt)])\<rparr>]"
  by (simp add: transfer_stock_def transfer_payload_def case_prod_beta Let_def
        private_request_snd prepared_def)

lemma sent_create_sell_order:
  "sent (snd (create_sell_order c s prc amt w)) =
     sent w @ [\<lparr>method' = ''POST'', url = base_url c @ ''/market/stock/sell-order'',
                headers = session_headers c,
                kwargs = Json (JObj [(''stock_symbol'', JStr (upper s)),
                                     (''price'', JInt prc),
                                     (''amount'', JInt amt)])\<rparr>]"
  by (simp add: create_sell_order_def case_prod_beta Let_def private_request_snd prepared_def)

lemma sent_market_buy_stock:
  "sent (snd (market_buy_stock c s amt w)) =
     sent w @ [\<lparr>method' = ''POST'', url = base_url c @ ''/market/stock/market-buy'',
                headers = session_headers c,
                kwargs = Json (JObj [(''stock_symbol'', JStr (upper s)),
                                     (''amount'', JInt amt)])\<rparr>]"
  by (simp add: market_buy_stock_def case_prod_beta Let_def private_request_snd prepared_def)

lemma sent_buy_currency:
  "sent (snd (buy_currency c s amt w)) =
     sent w @ [\<lparr>method' = ''POST'', url = base_url c @ ''/market/currency/buy'',
                headers = session_headers c,
                kwargs = Json (JObj [(''currency_symbol'', JStr (upper s)),
                                     (''amount'', JInt amt)])\<rparr>]"
  by (simp add: buy_currency_def swap_payload_def case_prod_beta Let_def
        private_request_snd prepared_def)

lemma sent_sell_currency:
  "sent (snd (sell_currency c s amt w)) =
     sent w @ [\<lparr>method' = ''POST'', url = base_url c @ ''/market/currency/sell'',
                headers = session_headers c,
                kwargs = Json (JObj [(''currency_symbol'', JStr (upper s)),
                                     (''amount'', JInt amt)])\<rparr>]"
  by (simp add: sell_currency_def swap_payload_def case_prod_beta Let_def
        private_request_snd prepared_def)

lemma upper_position: "upper (xs @ ch # ys) = upper xs @ char_upper ch # upper ys"
  by (simp add: upper_def)

text \<open>
  Claim C9. Uppercasing is idempotent; it replaces the character at every position by
  its uppercase counterpart, which for the letters a to z is the letter A to Z; and each
  of the ten operations that take a symbol hands exactly one request to the session, in
  which the symbol occurs uppercased: in the path for the four queries, in the payload
  for the six orders and transfers.
\<close>

theorem symbols_uppercased_before_leaving:
  "upper (upper s) = upper s
   \<and> upper (xs @ ch # ys) = upper xs @ char_upper ch # upper ys
   \<and> map char_upper ''abcdefghijklmnopqrstuvwxyz'' = ''ABCDEFGHIJKLMNOPQRSTUVWXYZ''
   \<and> sent (snd (get_currency_info c s w)) =
        sent w @ [\<lparr>method' = ''GET'', url = base_url c @ ''/currency/'' @ upper s,
                   headers = session_headers c, kwargs = NoKwargs\<rparr>]
   \<and> sent (snd (get_stock_info c s w)) =
        sent w @ [\<lparr>method' = ''GET'', url = base_url c @ ''/stock/'' @ upper s,
                   headers = session_headers c, kwargs = NoKwargs\<rparr>]
   \<and> sent (snd (get_stock_orderbook c s w)) =
        sent w @ [\<lparr>method' = ''GET'', url = base_url c @ ''/stock/'' @ upper s @ ''/orderbook'',
                   headers = session_headers c, kwargs = NoKwargs\<rparr>]
   \<and> sent (snd (get_liquidity_info c s w)) =
        sent w @ [\<lparr>method' = ''GET'',
                   url = base_url c @ ''/market/currency/liquidity/'' @ upper s,
                   headers = session_headers c, kwargs = NoKwargs\<rparr>]
   \<and> sent (snd (transfer_currency c rid s amt w)) =
        sent w @ [\<lparr>method' = ''POST'', url = base_url c @ ''/currency/transfer'',
                   headers = session_headers c,
                   kwargs = Json (JObj [(''recipient_id'', JInt rid),
                                        (''asset_symbol'', JStr (upper s)),
                                        (''amount'', JInt amt)])\<rparr>]
   \<and> sent (snd (transfer_stock c rid s amt w)) =
        sent w @ [\<lparr>method' = ''POST'', url = base_url c @ ''/stock/transfer'',
                   headers = session_headers c,
                   kwargs = Json (JObj [(''recipient_id'', JInt rid),
                                        (''asset_symbol'', JStr (upper s)),
                                        (''amount'', JInt amt)])\<rparr>]
   \<and> sent (snd (create_sell_order c s prc amt w)) =
        sent w @ [\<lparr>method' = ''POST'', url = base_url c @ ''/market/stock/sell-order'',
                   headers = session_headers c,
                   kwargs = Json (JObj [(''stock_symbol'', JStr (upper s)),
                                        (''price'', JInt prc),
                                        (''amount'', JInt amt)])\<rparr>]
   \<and> sent (snd (market_buy_stock c s amt w)) =
        sent w @ [\<lparr>method' = ''POST'', url = base_url c @ ''/market/stock/market-buy'',
                   headers = session_headers c,
                   kwargs = Json (JObj [(''stock_symbol'', JStr (upper s)),
                                        (''amount'', JInt amt)])\<rparr>]
   \<and> sent (snd (buy_currency c s amt w)) =
        sent w @ [\<lparr>method' = ''POST'', url = base_url c @ ''/market/currency/buy'',
                   headers = session_headers c,
                   kwargs = Json (JObj [(''currency_symbol'', JStr (upper s)),
                                        (''amount'', JInt amt)])\<rparr>]
   \<and> sent (snd (sell_currency c s amt w)) =
        sent w @ [\<lparr>method' = ''POST'', url = base_url c @ ''/market/currency/sell'',
                   headers = session_headers c,
                   kwargs = Json (JObj [(''currency_symbol'', JStr (upper s)),
                                        (''amount'', JInt amt)])\<rparr>]"
  by (intro conjI)
     (rule upper_idem upper_position char_upper_letters
        sent_get_currency_info sent_get_stock_info sent_get_stock_orderbook
        sent_get_liquidity_info sent_transfer_currency sent_transfer_stock
        sent_create_sell_order sent_market_buy_stock sent_buy_currency sent_sell_currency)+

end
